theory Spec2Isabelle
  imports Main
begin

section \<open>JavaScript values used by the components\<close>

text \<open>
  The components test strings for truthiness (\<^verbatim>\<open>!x\<close>, \<^verbatim>\<open>x ? a : b\<close>, \<^verbatim>\<open>x || y\<close>).
  A value that may be \<^verbatim>\<open>undefined\<close> or \<^verbatim>\<open>null\<close> is a \<open>string option\<close>; it is truthy
  when it is a non-empty string.
\<close>

definition truthy :: "string option \<Rightarrow> bool" where
  "truthy v = (case v of None \<Rightarrow> False | Some s \<Rightarrow> s \<noteq> [])"

text \<open>\<^verbatim>\<open>a || b\<close> on two values that may be absent.\<close>

definition js_or :: "string option \<Rightarrow> string option \<Rightarrow> string option" where
  "js_or a b = (if truthy a then a else b)"

text \<open>\<^verbatim>\<open>a || 'literal'\<close>: the chain ends in a string.\<close>

definition or_default :: "string option \<Rightarrow> string \<Rightarrow> string" where
  "or_default a d = (case a of None \<Rightarrow> d | Some s \<Rightarrow> if s \<noteq> [] then s else d)"

text \<open>A number inside a template literal: its decimal digits.\<close>

definition digit :: "nat \<Rightarrow> char" where
  "digit n = ''0123456789'' ! n"

fun string_of_nat :: "nat \<Rightarrow> string" where
  "string_of_nat n =
     (if n < 10 then [digit n] else string_of_nat (n div 10) @ [digit (n mod 10)])"

declare string_of_nat.simps [simp del]

text \<open>
  What a \<^verbatim>\<open>catch (error)\<close> block reads of the caught value:
  \<^verbatim>\<open>error.response?.data?.error\<close> (absent when any link of the chain is) and
  \<^verbatim>\<open>error.message\<close>.
\<close>

record js_error =
  response_data_error :: "string option"
  error_message :: string

text \<open>The notifications of vue-toastification: \<^verbatim>\<open>toast.success\<close>, \<^verbatim>\<open>toast.warning\<close>, \<^verbatim>\<open>toast.error\<close>.\<close>

datatype toast = ToastSuccess string | ToastWarning string | ToastError string

text \<open>A \<^verbatim>\<open>File\<close> of the browser: its name and its MIME type.\<close>

record js_file =
  file_name :: string
  file_type :: string

section \<open>ColumnMapping.vue\<close>

datatype field = Business_name | Industry | Location

record field_mapping =
  column :: string
  displayName :: string

text \<open>
  \<^verbatim>\<open>mapping\<close> is an object with exactly the three keys, each always present:
  a total map from the field to its entry.
\<close>

type_synonym mapping = "field \<Rightarrow> field_mapping"

definition requiredFields :: "field list" where
  "requiredFields = [Business_name, Industry, Location]"

definition initial_mapping :: mapping where
  "initial_mapping f =
     (case f of
        Business_name \<Rightarrow> \<lparr>column = [], displayName = ''Business Name''\<rparr>
      | Industry \<Rightarrow> \<lparr>column = [], displayName = ''Industry''\<rparr>
      | Location \<Rightarrow> \<lparr>column = [], displayName = ''Location''\<rparr>)"

text \<open>\<^verbatim>\<open>Object.values(this.mapping)\<close>, in the order of the keys.\<close>

definition object_values :: "mapping \<Rightarrow> field_mapping list" where
  "object_values m = [m Business_name, m Industry, m Location]"

text \<open>\<^verbatim>\<open>requiredFields.every(field => this.mapping[field].column)\<close>\<close>

definition isMappingValid :: "mapping \<Rightarrow> bool" where
  "isMappingValid m = list_all (\<lambda>field. truthy (Some (column (m field)))) requiredFields"

text \<open>\<^verbatim>\<open>Object.values(this.mapping).some(m => m.column === column)\<close>\<close>

definition isColumnMapped :: "mapping \<Rightarrow> string \<Rightarrow> bool" where
  "isColumnMapped m c = list_ex (\<lambda>fm. column fm = c) (object_values m)"

text \<open>
  The \<^verbatim>\<open>:disabled\<close> binding of the option for header \<open>c\<close> in the selector of \<open>field\<close>:
  \<^verbatim>\<open>isColumnMapped(column) && mapping[field].column !== column\<close>.
\<close>

definition option_disabled :: "mapping \<Rightarrow> field \<Rightarrow> string \<Rightarrow> bool" where
  "option_disabled m field c = (isColumnMapped m c \<and> column (m field) \<noteq> c)"

text \<open>The \<^verbatim>\<open>:disabled="!isMappingValid"\<close> binding of the Confirm button.\<close>

definition confirm_disabled :: "mapping \<Rightarrow> bool" where
  "confirm_disabled m = (\<not> isMappingValid m)"

text \<open>\<^verbatim>\<open>confirm()\<close>: the mapping emitted with the \<^verbatim>\<open>confirm\<close> event, if any.\<close>

definition confirm :: "mapping \<Rightarrow> mapping option" where
  "confirm m = (if isMappingValid m then Some m else None)"

text \<open>A click on the Confirm button: a disabled button runs no handler.\<close>

definition click_confirm :: "mapping \<Rightarrow> mapping option" where
  "click_confirm m = (if confirm_disabled m then None else confirm m)"

text \<open>
  The two \<^verbatim>\<open>v-model\<close> bindings: the selector writes \<^verbatim>\<open>mapping[field].column\<close>,
  the text input writes \<^verbatim>\<open>mapping[field].displayName\<close>.
\<close>

definition select_column :: "mapping \<Rightarrow> field \<Rightarrow> string \<Rightarrow> mapping" where
  "select_column m f c = m(f := (m f)\<lparr>column := c\<rparr>)"

definition input_displayName :: "mapping \<Rightarrow> field \<Rightarrow> string \<Rightarrow> mapping" where
  "input_displayName m f l = m(f := (m f)\<lparr>displayName := l\<rparr>)"

text \<open>
  What a user can do to the mapping. A selector offers the placeholder option
  (value \<^verbatim>\<open>""\<close>, never disabled) and one option per header of \<^verbatim>\<open>availableColumns\<close>;
  choosing a disabled option, or a value that is not offered, is not possible and
  changes nothing.
\<close>

datatype mapper_event = Choose field string | Label field string

definition mapper_step :: "string list \<Rightarrow> mapping \<Rightarrow> mapper_event \<Rightarrow> mapping" where
  "mapper_step availableColumns m ev =
     (case ev of
        Choose f c \<Rightarrow>
          if c = [] then select_column m f c
          else if c \<in> set availableColumns \<and> \<not> option_disabled m f c then select_column m f c
          else m
      | Label f l \<Rightarrow> input_displayName m f l)"

definition mapper_run :: "string list \<Rightarrow> mapper_event list \<Rightarrow> mapping" where
  "mapper_run availableColumns evs = foldl (mapper_step availableColumns) initial_mapping evs"

text \<open>
  No header is the selected source column of two fields. The empty value is the
  placeholder (no selection), which any number of fields may hold.
\<close>

definition distinct_selection :: "mapping \<Rightarrow> bool" where
  "distinct_selection m =
     (\<forall>f g. f \<noteq> g \<longrightarrow> column (m f) \<noteq> [] \<longrightarrow> column (m f) \<noteq> column (m g))"

section \<open>Requests and notifications\<close>

text \<open>
  The calls of axios, with what each carries: the upload sends the selected file and
  the serialised mapping; the page request its page and page size (and the filter
  texts, left out); the two record actions the record's id.
\<close>

datatype request =
    PostUpload js_file mapping
  | GetBusinesses int int
  | GetWebsite nat
  | PostGenerateEmail nat string

text \<open>What every component leaves behind: the notifications shown and the requests sent.\<close>

record runtime =
  toasts :: "toast list"
  requests :: "request list"

section \<open>BusinessList.vue\<close>

text \<open>
  A business record as the backend sends it. The display-only fields (city, state,
  the industry's display name) are read by the card template alone and are left out.
  \<^verbatim>\<open>website\<close> is absent until discovered; the template and \<^verbatim>\<open>findWebsite\<close> test it
  for truthiness.
\<close>

record business =
  business_id :: nat
  business_name :: string
  industry :: string
  location :: string
  website :: "string option"

text \<open>\<^verbatim>\<open>response.data\<close> of \<^verbatim>\<open>GET /businesses\<close>.\<close>

record page_response =
  response_businesses :: "business list"
  total_pages :: int

text \<open>
  The component's \<^verbatim>\<open>data()\<close>, on top of the notifications shown and the requests
  sent so far. \<^verbatim>\<open>isSearchingWebsite\<close> is one value: \<^verbatim>\<open>null\<close> or a business id.
  The filter inputs are left out (their text only travels in the request).
\<close>

record business_list = runtime +
  businesses :: "business list"
  loading_bl :: bool
  error_bl :: "string option"
  currentPage :: int
  perPage :: int
  totalPages :: int
  isSearchingWebsite :: "nat option"

definition business_list_data :: business_list where
  "business_list_data =
     \<lparr>toasts = [], requests = [], businesses = [], loading_bl = False, error_bl = None,
      currentPage = 1, perPage = 10, totalPages = 1, isSearchingWebsite = None\<rparr>"

text \<open>
  An \<^verbatim>\<open>async\<close> method is one function up to its \<^verbatim>\<open>await\<close> (named as the method) and
  one continuation per outcome of the awaited call (\<open>_resolve\<close>, \<open>_reject\<close>), each
  ending with the \<^verbatim>\<open>finally\<close> block. The continuation runs on the state as it is when
  the response arrives.
\<close>

definition fetchBusinesses :: "business_list \<Rightarrow> business_list" where
  "fetchBusinesses s =
     s\<lparr>loading_bl := True, error_bl := None,
       requests := requests s @ [GetBusinesses (currentPage s) (perPage s)]\<rparr>"

definition fetchBusinesses_resolve :: "business_list \<Rightarrow> page_response \<Rightarrow> business_list" where
  "fetchBusinesses_resolve s r =
     s\<lparr>businesses := response_businesses r, totalPages := total_pages r, loading_bl := False\<rparr>"

definition fetchBusinesses_reject :: "business_list \<Rightarrow> js_error \<Rightarrow> business_list" where
  "fetchBusinesses_reject s e =
     (let errorMessage = or_default (response_data_error e) ''Error fetching businesses''
      in s\<lparr>error_bl := Some errorMessage, toasts := toasts s @ [ToastError errorMessage],
           loading_bl := False\<rparr>)"

definition changePage :: "business_list \<Rightarrow> int \<Rightarrow> business_list" where
  "changePage s page = fetchBusinesses (s\<lparr>currentPage := page\<rparr>)"

text \<open>
  The pagination block of the template: rendered under \<^verbatim>\<open>v-if="totalPages > 1"\<close>,
  with the two \<^verbatim>\<open>:disabled\<close> bindings.
\<close>

definition pagination_rendered :: "business_list \<Rightarrow> bool" where
  "pagination_rendered s = (totalPages s > 1)"

definition previous_disabled :: "business_list \<Rightarrow> bool" where
  "previous_disabled s = (currentPage s = 1)"

definition next_disabled :: "business_list \<Rightarrow> bool" where
  "next_disabled s = (currentPage s = totalPages s)"

text \<open>A click reaches \<^verbatim>\<open>changePage\<close> only through a button that is rendered and enabled.\<close>

definition click_previous :: "business_list \<Rightarrow> business_list" where
  "click_previous s =
     (if pagination_rendered s \<and> \<not> previous_disabled s then changePage s (currentPage s - 1)
      else s)"

definition click_next :: "business_list \<Rightarrow> business_list" where
  "click_next s =
     (if pagination_rendered s \<and> \<not> next_disabled s then changePage s (currentPage s + 1)
      else s)"

text \<open>\<^verbatim>\<open>Array.prototype.findIndex\<close>: the first index that satisfies, \<open>None\<close> for -1.\<close>

fun findIndex :: "('a \<Rightarrow> bool) \<Rightarrow> 'a list \<Rightarrow> nat option" where
  "findIndex P [] = None"
| "findIndex P (x # xs) = (if P x then Some 0 else map_option Suc (findIndex P xs))"

definition findWebsite :: "business_list \<Rightarrow> nat \<Rightarrow> business_list" where
  "findWebsite s businessId =
     s\<lparr>isSearchingWebsite := Some businessId, requests := requests s @ [GetWebsite businessId]\<rparr>"

text \<open>The continuation after the response; \<open>b\<close> is \<^verbatim>\<open>response.data.business\<close>.\<close>

definition findWebsite_resolve :: "business_list \<Rightarrow> nat \<Rightarrow> business \<Rightarrow> business_list" where
  "findWebsite_resolve s businessId b =
     (let s' =
        (case findIndex (\<lambda>x. business_id x = businessId) (businesses s) of
           None \<Rightarrow> s
         | Some index \<Rightarrow>
             s\<lparr>businesses := (businesses s)[index := b],
               toasts := toasts s @
                 [if truthy (website b) then ToastSuccess (''Found website for '' @ business_name b)
                  else ToastWarning (''No website found for '' @ business_name b)]\<rparr>)
      in s'\<lparr>isSearchingWebsite := None\<rparr>)"

definition findWebsite_reject :: "business_list \<Rightarrow> nat \<Rightarrow> js_error \<Rightarrow> business_list" where
  "findWebsite_reject s businessId e =
     (let errorMessage = or_default (response_data_error e) ''Error finding website''
      in s\<lparr>toasts := toasts s @ [ToastError errorMessage], isSearchingWebsite := None\<rparr>)"

text \<open>
  The action control of a card: rendered under \<^verbatim>\<open>v-if="!business.website"\<close>; it is
  disabled and reads "Searching..." when \<^verbatim>\<open>isSearchingWebsite === business.id\<close>.
\<close>

definition find_website_rendered :: "business \<Rightarrow> bool" where
  "find_website_rendered b = (\<not> truthy (website b))"

definition shows_busy :: "business_list \<Rightarrow> nat \<Rightarrow> bool" where
  "shows_busy s businessId = (isSearchingWebsite s = Some businessId)"

text \<open>A click reaches \<^verbatim>\<open>findWebsite\<close> only through a control that is rendered and enabled.\<close>

definition click_findWebsite :: "business_list \<Rightarrow> business \<Rightarrow> business_list" where
  "click_findWebsite s b =
     (if find_website_rendered b \<and> \<not> shows_busy s (business_id b)
      then findWebsite s (business_id b) else s)"

text \<open>Two displayed records without a website.\<close>

definition acme :: business where
  "acme = \<lparr>business_id = 0, business_name = ''Acme Corp'', industry = ''Technology'',
           location = ''New York'', website = None\<rparr>"

definition bakery :: business where
  "bakery = \<lparr>business_id = 1, business_name = ''Best Bakery'', industry = ''Food'',
             location = ''Los Angeles'', website = None\<rparr>"

definition two_cards :: business_list where
  "two_cards = fetchBusinesses_resolve (fetchBusinesses business_list_data)
     \<lparr>response_businesses = [acme, bakery], total_pages = 1\<rparr>"

section \<open>EmailModal.vue\<close>

text \<open>
  The modal's prop \<^verbatim>\<open>business\<close> and its \<^verbatim>\<open>data()\<close>. The modal exists only while a
  business is selected, and \<^verbatim>\<open>generateEmail\<close> runs as soon as it is shown.
\<close>

record email_modal = runtime +
  business_prop :: business
  email :: string
  loading :: bool
  error :: "string option"

definition email_modal_data :: "business \<Rightarrow> email_modal" where
  "email_modal_data b =
     \<lparr>toasts = [], requests = [], business_prop = b, email = [], loading = False, error = None\<rparr>"

definition user_prompt_template :: string where
  "user_prompt_template =
     ''Focus on offering modern, responsive web design services that will help their business grow online.''"

definition generateEmail :: "email_modal \<Rightarrow> email_modal" where
  "generateEmail s =
     s\<lparr>loading := True, error := None,
       requests := requests s @
         [PostGenerateEmail (business_id (business_prop s)) user_prompt_template]\<rparr>"

text \<open>The \<^verbatim>\<open>catch\<close> block followed by \<^verbatim>\<open>finally\<close>.\<close>

definition generateEmail_catch :: "email_modal \<Rightarrow> js_error \<Rightarrow> email_modal" where
  "generateEmail_catch s e =
     (let msg = or_default (js_or (response_data_error e) (Some (error_message e)))
                  ''Error generating email''
      in s\<lparr>error := Some msg, toasts := toasts s @ [ToastError msg], loading := False\<rparr>)"

text \<open>
  \<^verbatim>\<open>response.data\<close> of a 2xx response, as far as the read \<^verbatim>\<open>response.data.email\<close>
  tells bodies apart: the JSON body \<^verbatim>\<open>null\<close>, on which the read throws a
  \<^verbatim>\<open>TypeError\<close>, and every other body, on which it gives the value of the field
  (absent when the body has no such field).
\<close>

datatype response_data = JsonNull | JsonBody "string option"

text \<open>The message of the \<^verbatim>\<open>TypeError\<close> for that read, as V8 words it.\<close>

definition null_read_message :: string where
  "null_read_message = ''Cannot read properties of null (reading 'email')''"

text \<open>
  The continuation after a 2xx response. Both the \<^verbatim>\<open>TypeError\<close> of the read and the
  \<^verbatim>\<open>throw\<close> of the check happen inside the \<^verbatim>\<open>try\<close> and land in the same \<^verbatim>\<open>catch\<close>,
  each with an \<^verbatim>\<open>Error\<close> that has a message and no \<^verbatim>\<open>response\<close>.
\<close>

definition generateEmail_resolve :: "email_modal \<Rightarrow> response_data \<Rightarrow> email_modal" where
  "generateEmail_resolve s response_data =
     (case response_data of
        JsonNull \<Rightarrow>
          generateEmail_catch s
            \<lparr>response_data_error = None, error_message = null_read_message\<rparr>
      | JsonBody None \<Rightarrow>
          generateEmail_catch s
            \<lparr>response_data_error = None, error_message = ''No email content in response''\<rparr>
      | JsonBody (Some text) \<Rightarrow>
          if \<not> truthy (Some text) then
            generateEmail_catch s
              \<lparr>response_data_error = None, error_message = ''No email content in response''\<rparr>
          else s\<lparr>email := text, loading := False\<rparr>)"

text \<open>The continuation after a rejected call (no response, or a status outside 2xx).\<close>

definition generateEmail_reject :: "email_modal \<Rightarrow> js_error \<Rightarrow> email_modal" where
  "generateEmail_reject s e = generateEmail_catch s e"

text \<open>
  The modal body: \<^verbatim>\<open>v-if="loading"\<close>, \<^verbatim>\<open>v-else-if="error"\<close>, \<^verbatim>\<open>v-else\<close> with the email
  text. The three branches are the states generating, errored and displayed.
\<close>

datatype modal_body = Generating | Errored string | Displayed string

definition modal_body :: "email_modal \<Rightarrow> modal_body" where
  "modal_body s =
     (if loading s then Generating
      else (case error s of
              None \<Rightarrow> Displayed (email s)
            | Some msg \<Rightarrow> if truthy (Some msg) then Errored msg else Displayed (email s)))"

text \<open>A modal that shows an email generated earlier, and two failures of a later call.\<close>

definition shown_email :: email_modal where
  "shown_email =
     generateEmail_resolve (generateEmail (email_modal_data acme)) (JsonBody (Some ''Hello Acme''))"

definition status_500_empty_error :: js_error where
  "status_500_empty_error =
     \<lparr>response_data_error = Some [], error_message = ''Request failed with status code 500''\<rparr>"

section \<open>App.vue\<close>

text \<open>
  \<^verbatim>\<open>uploadStatus\<close> is \<^verbatim>\<open>null\<close> or an object \<^verbatim>\<open>{type, message}\<close>; the template renders it
  in the status slot (\<^verbatim>\<open>v-if="uploadStatus"\<close>). \<^verbatim>\<open>uploadError\<close> is assigned by the
  methods; it is not declared in \<^verbatim>\<open>data()\<close> and no template reads it.
  \<open>fileInput_value\<close> is \<^verbatim>\<open>$refs.fileInput.value\<close>, \<open>parses\<close> the files handed to
  \<^verbatim>\<open>Papa.parse\<close>, \<open>refreshes\<close> the calls of \<^verbatim>\<open>$refs.businessList.fetchBusinesses()\<close>
  (the list component is rendered unconditionally, so the ref is set).
\<close>

record upload_status =
  status_type :: string
  status_message :: string

record app = runtime +
  selectedFile :: "js_file option"
  isDragover :: bool
  isUploading :: bool
  uploadStatus :: "upload_status option"
  uploadError :: "string option"
  showColumnMapping :: bool
  csvPreviewData :: "(string \<times> string) list list"
  csvColumns :: "string list"
  columnMapping :: "mapping option"
  fileInput_value :: string
  parses :: "js_file list"
  refreshes :: nat

definition app_data :: app where
  "app_data =
     \<lparr>toasts = [], requests = [], selectedFile = None, isDragover = False, isUploading = False,
      uploadStatus = None, uploadError = None, showColumnMapping = False, csvPreviewData = [],
      csvColumns = [], columnMapping = None, fileInput_value = [], parses = [], refreshes = 0\<rparr>"

text \<open>\<^verbatim>\<open>file && file.type === 'text/csv'\<close>\<close>

definition is_csv :: "js_file option \<Rightarrow> bool" where
  "is_csv file = (case file of None \<Rightarrow> False | Some f \<Rightarrow> file_type f = ''text/csv'')"

definition handleFileSelect :: "app \<Rightarrow> js_file option \<Rightarrow> app" where
  "handleFileSelect s file =
     (if is_csv file then s\<lparr>selectedFile := file, uploadStatus := None, uploadError := None\<rparr>
      else s\<lparr>uploadStatus :=
               Some \<lparr>status_type = ''error'', status_message = ''Please select a valid CSV file''\<rparr>\<rparr>)"

definition handleFileDrop :: "app \<Rightarrow> js_file option \<Rightarrow> app" where
  "handleFileDrop s0 file =
     (let s = s0\<lparr>isDragover := False\<rparr>
      in if is_csv file then s\<lparr>selectedFile := file, uploadStatus := None, uploadError := None\<rparr>
         else s\<lparr>uploadStatus :=
                  Some \<lparr>status_type = ''error'', status_message = ''Please drop a valid CSV file''\<rparr>\<rparr>)"

text \<open>\<^verbatim>\<open>previewFile\<close> hands the file to the parser; its two callbacks run later.\<close>

definition previewFile :: "app \<Rightarrow> app" where
  "previewFile s = (case selectedFile s of None \<Rightarrow> s | Some f \<Rightarrow> s\<lparr>parses := parses s @ [f]\<rparr>)"

definition previewFile_complete :: "app \<Rightarrow> (string \<times> string) list list \<Rightarrow> string list \<Rightarrow> app" where
  "previewFile_complete s rows meta_fields =
     s\<lparr>csvPreviewData := rows, csvColumns := meta_fields, showColumnMapping := True\<rparr>"

definition previewFile_error :: "app \<Rightarrow> string \<Rightarrow> app" where
  "previewFile_error s msg =
     s\<lparr>uploadStatus :=
         Some \<lparr>status_type = ''error'', status_message = ''Error parsing CSV file: '' @ msg\<rparr>\<rparr>"

definition cancelMapping :: "app \<Rightarrow> app" where
  "cancelMapping s =
     s\<lparr>showColumnMapping := False, csvPreviewData := [], csvColumns := [], columnMapping := None\<rparr>"

definition uploadFile :: "app \<Rightarrow> app" where
  "uploadFile s =
     (case selectedFile s of
        None \<Rightarrow> s
      | Some f \<Rightarrow>
          (case columnMapping s of
             None \<Rightarrow> s
           | Some m \<Rightarrow>
               s\<lparr>isUploading := True, uploadStatus := None, uploadError := None,
                 requests := requests s @ [PostUpload f m]\<rparr>))"

definition confirmMapping :: "app \<Rightarrow> mapping \<Rightarrow> app" where
  "confirmMapping s m = uploadFile (s\<lparr>columnMapping := Some m, showColumnMapping := False\<rparr>)"

text \<open>The continuation after a 2xx response; \<open>n\<close> is \<^verbatim>\<open>response.data.records_count\<close>.\<close>

definition uploadFile_resolve :: "app \<Rightarrow> nat \<Rightarrow> app" where
  "uploadFile_resolve s n =
     s\<lparr>uploadStatus :=
         Some \<lparr>status_type = ''success'',
               status_message = ''Successfully uploaded '' @ string_of_nat n @ '' records''\<rparr>,
       toasts := toasts s @ [ToastSuccess ''File uploaded successfully''],
       selectedFile := None, fileInput_value := [], columnMapping := None,
       refreshes := Suc (refreshes s), isUploading := False\<rparr>"

definition uploadFile_reject :: "app \<Rightarrow> js_error \<Rightarrow> app" where
  "uploadFile_reject s e =
     (let errorMessage = or_default (response_data_error e) ''Error uploading file''
      in s\<lparr>uploadError := Some errorMessage, toasts := toasts s @ [ToastError errorMessage],
           isUploading := False\<rparr>)"

text \<open>The status slot of the template, and the binding of the Preview button.\<close>

definition status_slot :: "app \<Rightarrow> upload_status option" where
  "status_slot s = uploadStatus s"

definition preview_disabled :: "app \<Rightarrow> bool" where
  "preview_disabled s = (selectedFile s = None \<or> isUploading s)"

text \<open>
  Everything that can happen to the component, in any order: the handlers of the
  template, the callbacks of the parser and the outcomes of the upload request.
\<close>

datatype app_event =
    FileSelect "js_file option"
  | FileDrop "js_file option"
  | PreviewFile
  | ParseComplete "(string \<times> string) list list" "string list"
  | ParseError string
  | CancelMapping
  | ConfirmMapping mapping
  | UploadResolved nat
  | UploadRejected js_error

fun app_step :: "app \<Rightarrow> app_event \<Rightarrow> app" where
  "app_step s (FileSelect file) = handleFileSelect s file"
| "app_step s (FileDrop file) = handleFileDrop s file"
| "app_step s PreviewFile = previewFile s"
| "app_step s (ParseComplete rows meta_fields) = previewFile_complete s rows meta_fields"
| "app_step s (ParseError msg) = previewFile_error s msg"
| "app_step s CancelMapping = cancelMapping s"
| "app_step s (ConfirmMapping m) = confirmMapping s m"
| "app_step s (UploadResolved n) = uploadFile_resolve s n"
| "app_step s (UploadRejected e) = uploadFile_reject s e"

definition app_run :: "app_event list \<Rightarrow> app" where
  "app_run evs = foldl app_step app_data evs"

text \<open>Every file the component holds or has sent is typed \<^verbatim>\<open>text/csv\<close>.\<close>

definition csv_request :: "request \<Rightarrow> bool" where
  "csv_request r = (case r of PostUpload f m \<Rightarrow> file_type f = ''text/csv'' | _ \<Rightarrow> True)"

definition csv_only :: "app \<Rightarrow> bool" where
  "csv_only s =
     ((case selectedFile s of None \<Rightarrow> True | Some f \<Rightarrow> file_type f = ''text/csv'') \<and>
      list_all csv_request (requests s))"

text \<open>The scenario of the specification: headers biz, cat, loc and their mapping.\<close>

definition leads_csv :: js_file where
  "leads_csv = \<lparr>file_name = ''leads.csv'', file_type = ''text/csv''\<rparr>"

definition logo_png :: js_file where
  "logo_png = \<lparr>file_name = ''logo.png'', file_type = ''image/png''\<rparr>"

definition biz_cat_loc :: mapping where
  "biz_cat_loc =
     mapper_run [''biz'', ''cat'', ''loc'']
       [Choose Business_name ''biz'', Choose Industry ''cat'', Choose Location ''loc'']"

definition missing_columns :: js_error where
  "missing_columns =
     \<lparr>response_data_error = Some ''Missing required columns'',
      error_message = ''Request failed with status code 400''\<rparr>"

section \<open>Column mapper: validity and exclusive assignment\<close>

lemma isMappingValid_iff:
  "isMappingValid m \<longleftrightarrow>
     column (m Business_name) \<noteq> [] \<and> column (m Industry) \<noteq> [] \<and> column (m Location) \<noteq> []"
  by (simp add: isMappingValid_def requiredFields_def truthy_def)

lemma isColumnMapped_iff: "isColumnMapped m c \<longleftrightarrow> (\<exists>f. column (m f) = c)"
proof
  assume "isColumnMapped m c"
  then show "\<exists>f. column (m f) = c"
    by (auto simp: isColumnMapped_def object_values_def)
next
  assume "\<exists>f. column (m f) = c"
  then obtain f where "column (m f) = c" ..
  then show "isColumnMapped m c"
    by (cases f) (simp_all add: isColumnMapped_def object_values_def)
qed

lemma column_input_displayName [simp]: "column (input_displayName m f l g) = column (m g)"
  by (simp add: input_displayName_def)

lemma column_select_column:
  "column (select_column m f c g) = (if g = f then c else column (m g))"
  by (simp add: select_column_def)

lemma distinct_selection_initial: "distinct_selection initial_mapping"
  by (simp add: distinct_selection_def initial_mapping_def split: field.splits)

lemma distinct_selection_step:
  assumes "distinct_selection m"
  shows "distinct_selection (mapper_step cols m ev)"
proof (cases ev)
  case (Label f l)
  with assms show ?thesis
    by (simp add: mapper_step_def distinct_selection_def)
next
  case (Choose f c)
  show ?thesis
  proof (cases "c = []")
    case True
    with assms Choose show ?thesis
      by (auto simp: mapper_step_def distinct_selection_def column_select_column)
  next
    case False
    show ?thesis
    proof (cases "c \<in> set cols \<and> \<not> option_disabled m f c")
      case no: False
      with assms Choose False show ?thesis
        by (auto simp: mapper_step_def)
    next
      case yes: True
      have free: "column (m g) \<noteq> c" if "g \<noteq> f" for g
      proof (cases "column (m f) = c")
        case True
        with assms \<open>c \<noteq> []\<close> that show ?thesis
          unfolding distinct_selection_def by metis
      next
        case False
        with yes show ?thesis
          by (auto simp: option_disabled_def isColumnMapped_iff)
      qed
      have "distinct_selection (select_column m f c)"
        unfolding distinct_selection_def
      proof (intro allI impI)
        fix a b
        assume ab: "a \<noteq> b" and sel: "column (select_column m f c a) \<noteq> []"
        show "column (select_column m f c a) \<noteq> column (select_column m f c b)"
        proof (cases "a = f")
          case True
          with ab free [of b] show ?thesis
            by (auto simp: column_select_column)
        next
          case af: False
          show ?thesis
          proof (cases "b = f")
            case True
            with af free [of a] show ?thesis
              by (auto simp: column_select_column)
          next
            case False
            with af ab sel assms show ?thesis
              by (simp add: column_select_column distinct_selection_def)
          qed
        qed
      qed
      with Choose False yes show ?thesis
        by (simp add: mapper_step_def)
    qed
  qed
qed

lemma distinct_selection_foldl:
  "distinct_selection m \<Longrightarrow> distinct_selection (foldl (mapper_step cols) m evs)"
  by (induction evs arbitrary: m) (simp_all add: distinct_selection_step)

lemma distinct_selection_run: "distinct_selection (mapper_run cols evs)"
  by (simp add: mapper_run_def distinct_selection_foldl distinct_selection_initial)

text \<open>
  C2. The Confirm button is enabled exactly when each of the three required fields
  has a non-empty source column; a click then emits the mapping, and otherwise emits
  nothing. The display labels play no part: editing any label, to any text (the empty
  one included), leaves the button as it was.
\<close>

theorem confirm_enabled_iff_all_columns:
  "(\<not> confirm_disabled m) =
     (column (m Business_name) \<noteq> [] \<and> column (m Industry) \<noteq> [] \<and> column (m Location) \<noteq> [])
   \<and> click_confirm m = (if \<not> confirm_disabled m then Some m else None)
   \<and> confirm_disabled (input_displayName m f l) = confirm_disabled m"
  by (simp add: confirm_disabled_def click_confirm_def confirm_def isMappingValid_iff)

theorem confirm_enabled_iff_all_columns_witness:
  "\<not> confirm_disabled (mapper_run [''biz'', ''cat'', ''loc'']
        [Choose Business_name ''biz'', Choose Industry ''cat'', Choose Location ''loc'',
         Label Industry []])
   \<and> confirm_disabled (mapper_run [''biz'', ''cat'', ''loc'']
        [Choose Business_name ''biz'', Choose Industry ''cat''])"
  using confirm_enabled_iff_all_columns
    [of "mapper_run [''biz'', ''cat'', ''loc'']
          [Choose Business_name ''biz'', Choose Industry ''cat'', Choose Location ''loc'',
           Label Industry []]"]
    confirm_enabled_iff_all_columns
    [of "mapper_run [''biz'', ''cat'', ''loc'']
          [Choose Business_name ''biz'', Choose Industry ''cat'']"]
  by (simp add: mapper_run_def mapper_step_def option_disabled_def isColumnMapped_def
      object_values_def select_column_def input_displayName_def initial_mapping_def)

text \<open>
  C3. In every state of the mapper that user actions can reach, and for distinct
  required fields A and B: while header h is the selected source column of A, the
  option for h is disabled in B's selector and enabled in A's own. (A selected source
  column is a non-empty value: the empty value is the placeholder option.)
\<close>

theorem assigned_header_disabled_elsewhere:
  assumes "A \<noteq> B"
    and "h \<noteq> []"
    and "column (mapper_run availableColumns evs A) = h"
  shows "option_disabled (mapper_run availableColumns evs) B h
       \<and> \<not> option_disabled (mapper_run availableColumns evs) A h"
proof -
  let ?m = "mapper_run availableColumns evs"
  have "distinct_selection ?m"
    by (rule distinct_selection_run)
  with assms have "column (?m B) \<noteq> h"
    unfolding distinct_selection_def by metis
  moreover from assms have "isColumnMapped ?m h"
    by (auto simp: isColumnMapped_iff)
  ultimately show ?thesis
    using assms by (simp add: option_disabled_def)
qed

theorem assigned_header_disabled_elsewhere_witness:
  "column (mapper_run [''biz'', ''cat'', ''loc''] [Choose Industry ''cat''] Industry) = ''cat''
   \<and> option_disabled (mapper_run [''biz'', ''cat'', ''loc''] [Choose Industry ''cat''])
        Location ''cat''
   \<and> \<not> option_disabled (mapper_run [''biz'', ''cat'', ''loc''] [Choose Industry ''cat''])
        Industry ''cat''"
proof -
  have sel: "column (mapper_run [''biz'', ''cat'', ''loc''] [Choose Industry ''cat''] Industry)
      = ''cat''"
    by (simp add: mapper_run_def mapper_step_def option_disabled_def isColumnMapped_def
        object_values_def select_column_def initial_mapping_def)
  have "Industry \<noteq> Location" and "''cat'' \<noteq> []"
    by simp_all
  from assigned_header_disabled_elsewhere [OF this sel] sel show ?thesis
    by simp
qed

section \<open>Business directory: page navigation\<close>

lemma page_response_applied:
  "currentPage (fetchBusinesses_resolve s r) = currentPage s"
  "totalPages (fetchBusinesses_resolve s r) = total_pages r"
  "requests (fetchBusinesses_resolve s r) = requests s"
  "perPage (fetchBusinesses_resolve s r) = perPage s"
  by (simp_all add: fetchBusinesses_resolve_def)

lemma changePage_effect:
  "currentPage (changePage s p) = p"
  "requests (changePage s p) = requests s @ [GetBusinesses p (perPage s)]"
  by (simp_all add: changePage_def fetchBusinesses_def)

text \<open>
  C4. After a page response with \<^verbatim>\<open>total_pages = N\<close>, on a current page p in 1..N:
  the \<^verbatim>\<open>:disabled\<close> binding of Next holds exactly when p = N and that of Previous exactly
  when p = 1. The two buttons are rendered only when N > 1, so a click moves to page
  p + 1 (and requests it) exactly when p is not N, to page p - 1 exactly when p is
  not 1, and the page never leaves 1..N.
\<close>

theorem navigation_disabled_at_boundaries:
  assumes "1 \<le> p" and "p \<le> N"
    and "currentPage s = p"
    and "total_pages r = N"
    and "s' = fetchBusinesses_resolve s r"
  shows "next_disabled s' = (p = N)
       \<and> previous_disabled s' = (p = 1)
       \<and> currentPage (click_next s') = (if p = N then p else p + 1)
       \<and> currentPage (click_previous s') = (if p = 1 then p else p - 1)
       \<and> requests (click_next s') =
           (if p = N then requests s else requests s @ [GetBusinesses (p + 1) (perPage s)])
       \<and> requests (click_previous s') =
           (if p = 1 then requests s else requests s @ [GetBusinesses (p - 1) (perPage s)])"
proof -
  have cur: "currentPage s' = p" and tot: "totalPages s' = N"
    using assms by (simp_all add: page_response_applied)
  have nxt: "next_disabled s' = (p = N)" and prv: "previous_disabled s' = (p = 1)"
    using cur tot by (simp_all add: next_disabled_def previous_disabled_def)
  have rendered: "pagination_rendered s'" if "p \<noteq> N \<or> p \<noteq> 1"
    using that assms(1,2) tot by (auto simp: pagination_rendered_def)
  have fwd: "click_next s' = (if p = N then s' else changePage s' (p + 1))"
    using nxt cur rendered by (simp add: click_next_def)
  have bwd: "click_previous s' = (if p = 1 then s' else changePage s' (p - 1))"
    using prv cur rendered by (simp add: click_previous_def)
  have same: "requests s' = requests s" "perPage s' = perPage s"
    using assms(5) by (simp_all add: page_response_applied)
  show ?thesis
    by (simp add: nxt prv cur same fwd bwd changePage_effect)
qed

theorem navigation_disabled_at_boundaries_witness:
  "next_disabled (fetchBusinesses_resolve (changePage two_cards 3)
       \<lparr>response_businesses = [], total_pages = 3\<rparr>)
   \<and> \<not> previous_disabled (fetchBusinesses_resolve (changePage two_cards 3)
       \<lparr>response_businesses = [], total_pages = 3\<rparr>)
   \<and> currentPage (click_previous (fetchBusinesses_resolve (changePage two_cards 3)
       \<lparr>response_businesses = [], total_pages = 3\<rparr>)) = 2
   \<and> currentPage (click_next (fetchBusinesses_resolve (changePage two_cards 3)
       \<lparr>response_businesses = [], total_pages = 3\<rparr>)) = 3"
proof -
  have "(1::int) \<le> 3" and "(3::int) \<le> 3"
    by simp_all
  from navigation_disabled_at_boundaries [OF this changePage_effect(1) _ refl,
      of "\<lparr>response_businesses = [], total_pages = 3\<rparr>" two_cards]
  show ?thesis
    by simp
qed

section \<open>Website finder\<close>

lemma findIndex_None: "findIndex P xs = None \<longleftrightarrow> (\<forall>x \<in> set xs. \<not> P x)"
  by (induction xs) auto

lemma findIndex_Some:
  "findIndex P xs = Some i \<Longrightarrow> i < length xs \<and> P (xs ! i)"
proof (induction xs arbitrary: i)
  case Nil
  then show ?case by simp
next
  case (Cons x xs)
  show ?case
  proof (cases "P x")
    case True
    with Cons.prems show ?thesis by simp
  next
    case False
    with Cons.prems obtain j where "findIndex P xs = Some j" and "i = Suc j"
      by auto
    with Cons.IH [of j] show ?thesis by simp
  qed
qed

lemma findWebsite_resolve_found:
  "findIndex (\<lambda>x. business_id x = businessId) (businesses s) = Some i \<Longrightarrow>
   findWebsite_resolve s businessId b =
     s\<lparr>businesses := (businesses s)[i := b],
       toasts := toasts s @
         [if truthy (website b) then ToastSuccess (''Found website for '' @ business_name b)
          else ToastWarning (''No website found for '' @ business_name b)],
       isSearchingWebsite := None\<rparr>"
  by (simp add: findWebsite_resolve_def)

lemma findWebsite_resolve_gone:
  "findIndex (\<lambda>x. business_id x = businessId) (businesses s) = None \<Longrightarrow>
   findWebsite_resolve s businessId b = s\<lparr>isSearchingWebsite := None\<rparr>"
  by (simp add: findWebsite_resolve_def)

text \<open>
  C1, as the code has it. The busy state is one slot that holds the id of the lookup
  triggered last. While Y's control shows busy, the control of another record X is
  enabled, and a click on it is not blocked: the request for X is sent and X's
  control shows busy. Y's control stops showing busy at that moment, and the
  completion of any lookup (with a response or with a failure) empties the slot, so
  that no control shows busy afterwards.
\<close>

theorem busy_state_is_one_slot:
  assumes "business_id x \<noteq> Y"
    and "shows_busy s Y"
    and "find_website_rendered x"
  shows "click_findWebsite s x = findWebsite s (business_id x)
       \<and> requests (click_findWebsite s x) = requests s @ [GetWebsite (business_id x)]
       \<and> shows_busy (click_findWebsite s x) (business_id x)
       \<and> \<not> shows_busy (click_findWebsite s x) Y
       \<and> \<not> shows_busy (findWebsite_resolve t i b) Z
       \<and> \<not> shows_busy (findWebsite_reject t i e) Z"
proof -
  have "\<not> shows_busy s (business_id x)"
    using assms(1,2) by (simp add: shows_busy_def)
  with assms(3) have click: "click_findWebsite s x = findWebsite s (business_id x)"
    by (simp add: click_findWebsite_def)
  have "isSearchingWebsite (findWebsite_resolve t i b) = None"
    by (cases "findIndex (\<lambda>x. business_id x = i) (businesses t)")
      (simp_all add: findWebsite_resolve_found findWebsite_resolve_gone)
  moreover have "isSearchingWebsite (findWebsite_reject t i e) = None"
    by (simp add: findWebsite_reject_def Let_def)
  ultimately show ?thesis
    using assms(1) by (simp add: click shows_busy_def findWebsite_def)
qed

lemma two_cards_clicked:
  "click_findWebsite two_cards bakery = findWebsite two_cards 1"
  "click_findWebsite two_cards acme = findWebsite two_cards 0"
  "click_findWebsite (findWebsite two_cards 1) acme = findWebsite (findWebsite two_cards 1) 0"
  "click_findWebsite (findWebsite two_cards 0) bakery = findWebsite (findWebsite two_cards 0) 1"
  by (simp_all add: click_findWebsite_def find_website_rendered_def shows_busy_def
      findWebsite_def truthy_def acme_def bakery_def two_cards_def
      fetchBusinesses_resolve_def fetchBusinesses_def business_list_data_def)

theorem busy_state_is_one_slot_witness:
  "business_id acme \<noteq> 1
   \<and> find_website_rendered acme
   \<and> shows_busy (click_findWebsite two_cards bakery) 1
   \<and> requests (click_findWebsite (click_findWebsite two_cards bakery) acme)
       = requests (click_findWebsite two_cards bakery) @ [GetWebsite (business_id acme)]
   \<and> shows_busy (click_findWebsite (click_findWebsite two_cards bakery) acme) (business_id acme)
   \<and> \<not> shows_busy (click_findWebsite (click_findWebsite two_cards bakery) acme) 1"
proof -
  have busy: "shows_busy (click_findWebsite two_cards bakery) 1"
    by (simp add: two_cards_clicked shows_busy_def findWebsite_def)
  have other: "business_id acme \<noteq> 1" and rendered: "find_website_rendered acme"
    by (simp_all add: acme_def find_website_rendered_def truthy_def)
  from busy_state_is_one_slot [OF other busy rendered] other busy rendered
  show ?thesis
    by blast
qed

text \<open>
  The claim as stated fails on two displayed records: the lookup for record 1 is in
  flight and its control shows busy; triggering the lookup for record 0 makes the
  control of record 1 stop showing busy. And with both in flight (record 0 triggered
  first), the completion of the lookup for record 0 clears the busy state of
  record 1.
\<close>

theorem busy_state_independent_counterexample:
  "shows_busy (click_findWebsite two_cards bakery) 1
   \<and> \<not> shows_busy (click_findWebsite (click_findWebsite two_cards bakery) acme) 1
   \<and> shows_busy (click_findWebsite (click_findWebsite two_cards acme) bakery) 1
   \<and> \<not> shows_busy
        (findWebsite_resolve (click_findWebsite (click_findWebsite two_cards acme) bakery) 0
           (acme\<lparr>website := Some ''https://acme.example''\<rparr>)) 1"
  by (simp add: click_findWebsite_def find_website_rendered_def truthy_def shows_busy_def
      findWebsite_def findWebsite_resolve_def two_cards_def fetchBusinesses_resolve_def
      fetchBusinesses_def business_list_data_def acme_def bakery_def)

text \<open>
  C8, as the code has it. When the lookup completes with a response and the record
  is still in the displayed set, the record at its place is replaced by the record of
  the response and exactly one notification is added: a warning when that record
  carries no website (so the displayed record has none), a success when it carries
  one; never an error. When the record is no longer in the displayed set, the set is
  left as it is and no notification is added.
\<close>

theorem lookup_result_notification:
  assumes "s' = findWebsite_resolve s businessId b"
  shows "if businessId \<in> business_id ` set (businesses s) then
           (\<exists>i. i < length (businesses s) \<and> business_id (businesses s ! i) = businessId
                \<and> businesses s' = (businesses s)[i := b] \<and> businesses s' ! i = b)
           \<and> toasts s' = toasts s @
               [if truthy (website b)
                then ToastSuccess (''Found website for '' @ business_name b)
                else ToastWarning (''No website found for '' @ business_name b)]
         else businesses s' = businesses s \<and> toasts s' = toasts s"
proof (cases "findIndex (\<lambda>x. business_id x = businessId) (businesses s)")
  case None
  then have "businessId \<notin> business_id ` set (businesses s)"
    by (auto simp: findIndex_None)
  with None assms show ?thesis
    by (simp add: findWebsite_resolve_gone)
next
  case (Some i)
  from findIndex_Some [OF Some]
  have i: "i < length (businesses s)" and hit: "business_id (businesses s ! i) = businessId"
    by simp_all
  then have shown: "businessId \<in> business_id ` set (businesses s)"
    by (metis imageI nth_mem)
  have "businesses s' = (businesses s)[i := b]"
    using assms Some by (simp add: findWebsite_resolve_found)
  moreover from this i have "businesses s' ! i = b"
    by simp
  moreover have "toasts s' = toasts s @
      [if truthy (website b) then ToastSuccess (''Found website for '' @ business_name b)
       else ToastWarning (''No website found for '' @ business_name b)]"
    using assms Some by (simp add: findWebsite_resolve_found)
  ultimately show ?thesis
    using shown i hit by auto
qed

theorem lookup_result_notification_witness:
  "toasts (findWebsite_resolve (findWebsite two_cards 0) 0 acme)
     = [ToastWarning ''No website found for Acme Corp'']
   \<and> toasts (findWebsite_resolve (findWebsite two_cards 0) 0
        (acme\<lparr>website := Some ''https://acme.example''\<rparr>))
     = [ToastSuccess ''Found website for Acme Corp'']"
  using lookup_result_notification [OF refl, of 0 "findWebsite two_cards 0" acme]
    lookup_result_notification [OF refl, of 0 "findWebsite two_cards 0"
      "acme\<lparr>website := Some ''https://acme.example''\<rparr>"]
  by (simp add: findWebsite_def two_cards_def fetchBusinesses_resolve_def fetchBusinesses_def
      business_list_data_def acme_def bakery_def truthy_def)

text \<open>
  The claim as stated fails when the displayed set changes while the lookup is in
  flight: the lookup for record 0 is triggered, a page response then replaces the
  displayed set by one without that record, and the lookup completes with a record
  that carries no website. No notification fires.
\<close>

theorem lookup_result_notification_counterexample:
  "\<not> truthy (website acme)
   \<and> toasts (findWebsite_resolve
        (fetchBusinesses_resolve (fetchBusinesses (findWebsite two_cards 0))
           \<lparr>response_businesses = [bakery], total_pages = 1\<rparr>)
        0 acme) = []"
  by (simp add: findWebsite_resolve_def findWebsite_def two_cards_def
      fetchBusinesses_resolve_def fetchBusinesses_def business_list_data_def acme_def
      bakery_def truthy_def)

section \<open>Email generator\<close>

lemma generateEmail_catch_body:
  assumes "msg = or_default (js_or (response_data_error e) (Some (error_message e)))
                   ''Error generating email''"
  shows "modal_body (generateEmail_catch s e) = Errored msg"
    and "error (generateEmail_catch s e) = Some msg"
    and "toasts (generateEmail_catch s e) = toasts s @ [ToastError msg]"
    and "email (generateEmail_catch s e) = email s"
    and "\<not> loading (generateEmail_catch s e)"
proof -
  have "msg \<noteq> []"
    using assms
    by (simp add: or_default_def js_or_def truthy_def split: option.splits)
  then show "modal_body (generateEmail_catch s e) = Errored msg"
    using assms
    by (simp add: modal_body_def generateEmail_catch_def Let_def truthy_def)
qed (simp_all add: assms generateEmail_catch_def Let_def)

text \<open>
  C9, as the code has it. When the generation call is rejected with the payload
  \<^verbatim>\<open>{error: x}\<close>, the modal leaves the loading state for the errored one, shows one
  message and pushes the same message as an error notification; the email text stored
  before stays stored and is not shown. The message is x when x is not empty;
  for an empty x it is the message of the rejection, and \<^verbatim>\<open>Error generating email\<close>
  when that is empty too.
\<close>

theorem generation_error_payload_shown:
  assumes "response_data_error e = Some x"
    and "s' = generateEmail_reject (generateEmail s) e"
    and "msg = (if x \<noteq> [] then x
                else if error_message e \<noteq> [] then error_message e
                else ''Error generating email'')"
  shows "modal_body s' = Errored msg
       \<and> error s' = Some msg
       \<and> toasts s' = toasts s @ [ToastError msg]
       \<and> email s' = email s
       \<and> \<not> loading s'"
proof -
  have "msg = or_default (js_or (response_data_error e) (Some (error_message e)))
                ''Error generating email''"
    using assms(1,3) by (simp add: or_default_def js_or_def truthy_def)
  from generateEmail_catch_body [OF this, of "generateEmail s"] assms(2)
  show ?thesis
    by (simp add: generateEmail_reject_def generateEmail_def)
qed

theorem generation_error_payload_shown_witness:
  "modal_body (generateEmail_reject (generateEmail shown_email)
       \<lparr>response_data_error = Some ''x'', error_message = ''Request failed with status code 500''\<rparr>)
     = Errored ''x''
   \<and> toasts (generateEmail_reject (generateEmail shown_email)
       \<lparr>response_data_error = Some ''x'', error_message = ''Request failed with status code 500''\<rparr>)
     = [ToastError ''x'']
   \<and> email (generateEmail_reject (generateEmail shown_email)
       \<lparr>response_data_error = Some ''x'', error_message = ''Request failed with status code 500''\<rparr>)
     = ''Hello Acme''"
  using generation_error_payload_shown [OF _ refl refl, of
      "\<lparr>response_data_error = Some ''x'', error_message = ''Request failed with status code 500''\<rparr>"
      "''x''" shown_email]
  by (simp add: shown_email_def generateEmail_resolve_def generateEmail_def
      email_modal_data_def truthy_def)

text \<open>
  The claim as stated fails for the payload \<^verbatim>\<open>{error: ""}\<close>: the modal and the
  notification do not show the empty text of the payload but the message of the
  rejection.
\<close>

theorem generation_error_payload_counterexample:
  "response_data_error status_500_empty_error = Some []
   \<and> modal_body (generateEmail_reject (generateEmail shown_email) status_500_empty_error)
       \<noteq> Errored []
   \<and> modal_body (generateEmail_reject (generateEmail shown_email) status_500_empty_error)
       = Errored ''Request failed with status code 500''
   \<and> toasts (generateEmail_reject (generateEmail shown_email) status_500_empty_error)
       = [ToastError ''Request failed with status code 500'']"
  by (simp add: status_500_empty_error_def generateEmail_reject_def generateEmail_catch_def
      generateEmail_def shown_email_def generateEmail_resolve_def email_modal_data_def
      modal_body_def or_default_def js_or_def truthy_def Let_def)

lemma null_read_message_shown:
  "null_read_message =
     or_default (js_or None (Some null_read_message)) ''Error generating email''"
  by (simp add: or_default_def js_or_def truthy_def null_read_message_def)

text \<open>
  C10, as the code has it. A 2xx response is not enough for the displayed state.
  When the body is not \<^verbatim>\<open>null\<close> and has no email field, or an empty one, the modal
  ends in the errored state with the message \<^verbatim>\<open>No email content in response\<close>, and
  the same message is pushed as an error notification. When the body is \<^verbatim>\<open>null\<close>,
  the modal ends in the errored state as well, but the message shown and notified is
  that of the \<^verbatim>\<open>TypeError\<close> raised by reading the field. In both cases the stored
  email text is left as it was.
\<close>

theorem success_without_email_is_error:
  assumes "\<not> truthy response_email"
    and "s' = generateEmail_resolve (generateEmail s) (JsonBody response_email)"
    and "s'' = generateEmail_resolve (generateEmail s) JsonNull"
  shows "modal_body s' = Errored ''No email content in response''
       \<and> error s' = Some ''No email content in response''
       \<and> toasts s' = toasts s @ [ToastError ''No email content in response'']
       \<and> email s' = email s
       \<and> \<not> loading s'
       \<and> modal_body s'' = Errored null_read_message
       \<and> error s'' = Some null_read_message
       \<and> toasts s'' = toasts s @ [ToastError null_read_message]
       \<and> email s'' = email s
       \<and> \<not> loading s''"
proof -
  let ?thrown = "\<lparr>response_data_error = None, error_message = ''No email content in response''\<rparr>"
  let ?raised = "\<lparr>response_data_error = None, error_message = null_read_message\<rparr>"
  have thrown: "s' = generateEmail_catch (generateEmail s) ?thrown"
    using assms(1,2) by (cases response_email) (simp_all add: generateEmail_resolve_def)
  have raised: "s'' = generateEmail_catch (generateEmail s) ?raised"
    using assms(3) by (simp add: generateEmail_resolve_def)
  have "''No email content in response'' =
      or_default (js_or (response_data_error ?thrown) (Some (error_message ?thrown)))
        ''Error generating email''"
    by (simp add: or_default_def js_or_def truthy_def)
  from generateEmail_catch_body [OF this, of "generateEmail s"] thrown
  have first: "modal_body s' = Errored ''No email content in response''
       \<and> error s' = Some ''No email content in response''
       \<and> toasts s' = toasts s @ [ToastError ''No email content in response'']
       \<and> email s' = email s
       \<and> \<not> loading s'"
    by (simp add: generateEmail_def)
  have "null_read_message =
      or_default (js_or (response_data_error ?raised) (Some (error_message ?raised)))
        ''Error generating email''"
    using null_read_message_shown by simp
  from generateEmail_catch_body [OF this, of "generateEmail s"] raised
  have "modal_body s'' = Errored null_read_message
       \<and> error s'' = Some null_read_message
       \<and> toasts s'' = toasts s @ [ToastError null_read_message]
       \<and> email s'' = email s
       \<and> \<not> loading s''"
    by (simp add: generateEmail_def)
  with first show ?thesis
    by simp
qed

lemma shown_email_body:
  "modal_body shown_email = Displayed ''Hello Acme''"
  "email shown_email = ''Hello Acme''"
  "toasts shown_email = []"
  by (simp_all add: shown_email_def generateEmail_resolve_def generateEmail_def
      email_modal_data_def modal_body_def truthy_def)

theorem success_without_email_is_error_witness:
  "modal_body shown_email = Displayed ''Hello Acme''
   \<and> modal_body (generateEmail_resolve (generateEmail shown_email) (JsonBody None))
       = Errored ''No email content in response''
   \<and> modal_body (generateEmail_resolve (generateEmail shown_email) (JsonBody (Some [])))
       = Errored ''No email content in response''
   \<and> email (generateEmail_resolve (generateEmail shown_email) (JsonBody (Some []))) = ''Hello Acme''
   \<and> modal_body (generateEmail_resolve (generateEmail shown_email) JsonNull)
       = Errored null_read_message
   \<and> email (generateEmail_resolve (generateEmail shown_email) JsonNull) = ''Hello Acme''"
proof -
  have absent: "\<not> truthy None" and empty: "\<not> truthy (Some [])"
    by (simp_all add: truthy_def)
  from success_without_email_is_error [OF absent refl refl, of shown_email]
    success_without_email_is_error [OF empty refl refl, of shown_email] shown_email_body
  show ?thesis
    by simp
qed

text \<open>
  The claim as stated fails for a 2xx response whose body is \<^verbatim>\<open>null\<close>: the body
  lacks an email field, yet the modal and the notification do not show
  \<^verbatim>\<open>No email content in response\<close> but the message of the \<^verbatim>\<open>TypeError\<close>.
\<close>

theorem success_without_email_counterexample:
  "modal_body (generateEmail_resolve (generateEmail shown_email) JsonNull)
       \<noteq> Errored ''No email content in response''
   \<and> modal_body (generateEmail_resolve (generateEmail shown_email) JsonNull)
       = Errored ''Cannot read properties of null (reading 'email')''
   \<and> toasts (generateEmail_resolve (generateEmail shown_email) JsonNull)
       = [ToastError ''Cannot read properties of null (reading 'email')'']"
  by (simp add: generateEmail_resolve_def generateEmail_catch_def generateEmail_def
      shown_email_def email_modal_data_def modal_body_def or_default_def js_or_def
      truthy_def Let_def null_read_message_def)

section \<open>Upload coordinator\<close>

lemma confirmMapping_selected:
  "selectedFile s = Some f \<Longrightarrow>
   confirmMapping s m =
     s\<lparr>columnMapping := Some m, showColumnMapping := False, isUploading := True,
       uploadStatus := None, uploadError := None, requests := requests s @ [PostUpload f m]\<rparr>"
  by (simp add: confirmMapping_def uploadFile_def)

lemma string_of_3: "string_of_nat 3 = ''3''"
  by (simp add: string_of_nat.simps digit_def)

lemma selected_leads:
  "selectedFile (handleFileSelect app_data (Some leads_csv)) = Some leads_csv"
  by (simp add: handleFileSelect_def is_csv_def leads_csv_def)

text \<open>
  C5, as the code has it. When an upload of the selected file completes with the
  record count n, the status slot reports \<^verbatim>\<open>Successfully uploaded n records\<close> and a success
  notification is pushed; the selected file, the file input and the column mapping
  are reset, the uploading flag is cleared and the business list is asked to fetch
  again. The upload status is not reset at that point: it was cleared when the
  upload started and now holds the success report.
\<close>

theorem upload_success_reports_and_resets:
  assumes "selectedFile s = Some f"
    and "s' = uploadFile_resolve (confirmMapping s m) n"
  shows "requests s' = requests s @ [PostUpload f m]
       \<and> uploadStatus (confirmMapping s m) = None
       \<and> status_slot s' =
           Some \<lparr>status_type = ''success'',
                 status_message = ''Successfully uploaded '' @ string_of_nat n @ '' records''\<rparr>
       \<and> toasts s' = toasts s @ [ToastSuccess ''File uploaded successfully'']
       \<and> selectedFile s' = None
       \<and> fileInput_value s' = []
       \<and> columnMapping s' = None
       \<and> \<not> isUploading s'
       \<and> refreshes s' = Suc (refreshes s)"
  using assms
  by (simp add: confirmMapping_selected uploadFile_resolve_def status_slot_def)

theorem upload_success_reports_and_resets_witness:
  "status_slot (uploadFile_resolve
       (confirmMapping (handleFileSelect app_data (Some leads_csv)) biz_cat_loc) 3)
     = Some \<lparr>status_type = ''success'', status_message = ''Successfully uploaded 3 records''\<rparr>
   \<and> selectedFile (uploadFile_resolve
       (confirmMapping (handleFileSelect app_data (Some leads_csv)) biz_cat_loc) 3) = None
   \<and> columnMapping (uploadFile_resolve
       (confirmMapping (handleFileSelect app_data (Some leads_csv)) biz_cat_loc) 3) = None
   \<and> refreshes (uploadFile_resolve
       (confirmMapping (handleFileSelect app_data (Some leads_csv)) biz_cat_loc) 3) = 1"
  using upload_success_reports_and_resets [OF selected_leads refl, of biz_cat_loc 3]
  by (simp add: string_of_3 handleFileSelect_def is_csv_def leads_csv_def app_data_def)

text \<open>
  The claim as stated fails on the scenario of the specification: after the upload
  of three records has succeeded, the upload status is not reset but holds the
  success report.
\<close>

theorem upload_status_reset_counterexample:
  "uploadStatus (uploadFile_resolve
       (confirmMapping (handleFileSelect app_data (Some leads_csv)) biz_cat_loc) 3) \<noteq> None
   \<and> uploadStatus (uploadFile_resolve
       (confirmMapping (handleFileSelect app_data (Some leads_csv)) biz_cat_loc) 3)
     = Some \<lparr>status_type = ''success'', status_message = ''Successfully uploaded 3 records''\<rparr>"
  by (simp add: uploadFile_resolve_def string_of_3)

text \<open>
  C6 at a failing upload: the backend answers \<^verbatim>\<open>{error: "Missing required columns"}\<close>.
  The message reaches the notification and \<^verbatim>\<open>uploadError\<close>, which no template reads;
  the status slot stays empty.
\<close>

theorem upload_failure_not_in_status_slot:
  "status_slot (uploadFile_reject
       (confirmMapping (handleFileSelect app_data (Some leads_csv)) biz_cat_loc)
       missing_columns) = None
   \<and> uploadError (uploadFile_reject
       (confirmMapping (handleFileSelect app_data (Some leads_csv)) biz_cat_loc)
       missing_columns) = Some ''Missing required columns''
   \<and> toasts (uploadFile_reject
       (confirmMapping (handleFileSelect app_data (Some leads_csv)) biz_cat_loc)
       missing_columns) = [ToastError ''Missing required columns'']"
  by (simp add: confirmMapping_def uploadFile_def uploadFile_reject_def status_slot_def
      missing_columns_def or_default_def Let_def handleFileSelect_def is_csv_def
      leads_csv_def app_data_def)

lemma csv_only_data: "csv_only app_data"
  by (simp add: csv_only_def app_data_def)

lemma csv_only_handleFileSelect: "csv_only s \<Longrightarrow> csv_only (handleFileSelect s file)"
  by (auto simp: csv_only_def handleFileSelect_def is_csv_def split: option.splits)

lemma csv_only_handleFileDrop: "csv_only s \<Longrightarrow> csv_only (handleFileDrop s file)"
  by (auto simp: csv_only_def handleFileDrop_def is_csv_def Let_def split: option.splits)

lemma csv_only_uploadFile: "csv_only s \<Longrightarrow> csv_only (uploadFile s)"
  by (auto simp: csv_only_def csv_request_def uploadFile_def split: option.splits)

lemma csv_only_holds:
  assumes "csv_only s" and "file_type f \<noteq> ''text/csv''"
  shows "selectedFile s \<noteq> Some f" and "PostUpload f m \<notin> set (requests s)"
proof -
  from assms show "selectedFile s \<noteq> Some f"
    by (auto simp: csv_only_def)
  show "PostUpload f m \<notin> set (requests s)"
  proof
    assume "PostUpload f m \<in> set (requests s)"
    moreover from assms(1) have "\<forall>r \<in> set (requests s). csv_request r"
      by (simp add: csv_only_def list_all_iff)
    ultimately have "csv_request (PostUpload f m)"
      by blast
    with assms(2) show False
      by (simp add: csv_request_def)
  qed
qed

lemma csv_only_confirmMapping: "csv_only s \<Longrightarrow> csv_only (confirmMapping s m)"
  unfolding confirmMapping_def
  by (rule csv_only_uploadFile) (simp add: csv_only_def)

lemma csv_only_step: "csv_only s \<Longrightarrow> csv_only (app_step s ev)"
proof (cases ev)
  case (FileSelect chosen)
  assume "csv_only s"
  with FileSelect show ?thesis by (simp add: csv_only_handleFileSelect)
next
  case (FileDrop dropped)
  assume "csv_only s"
  with FileDrop show ?thesis by (simp add: csv_only_handleFileDrop)
next
  case PreviewFile
  assume "csv_only s"
  with PreviewFile show ?thesis
    by (simp add: csv_only_def previewFile_def split: option.splits)
next
  case (ParseComplete rows meta_fields)
  assume "csv_only s"
  with ParseComplete show ?thesis
    by (simp add: csv_only_def previewFile_complete_def)
next
  case (ParseError msg)
  assume "csv_only s"
  with ParseError show ?thesis
    by (simp add: csv_only_def previewFile_error_def)
next
  case CancelMapping
  assume "csv_only s"
  with CancelMapping show ?thesis
    by (simp add: csv_only_def cancelMapping_def)
next
  case (ConfirmMapping m)
  assume "csv_only s"
  with ConfirmMapping show ?thesis by (simp add: csv_only_confirmMapping)
next
  case (UploadResolved n)
  assume "csv_only s"
  with UploadResolved show ?thesis
    by (simp add: csv_only_def uploadFile_resolve_def)
next
  case (UploadRejected e)
  assume "csv_only s"
  with UploadRejected show ?thesis
    by (simp add: csv_only_def uploadFile_reject_def Let_def)
qed

lemma csv_only_foldl: "csv_only s \<Longrightarrow> csv_only (foldl app_step s evs)"
  by (induction evs arbitrary: s) (simp_all add: csv_only_step)

lemma csv_only_run: "csv_only (app_run evs)"
  by (simp add: app_run_def csv_only_foldl csv_only_data)

text \<open>
  C7. A file whose MIME type is not \<^verbatim>\<open>text/csv\<close> is rejected when it is selected and
  when it is dropped: the selected-file state and the requests sent are left as they
  were, and the status slot shows the error message. Whatever happens to the
  component, in any order, that file is never the selected file and no upload
  request ever carries it.
\<close>

theorem non_csv_never_reaches_network:
  assumes "file_type f \<noteq> ''text/csv''"
  shows "selectedFile (handleFileSelect s (Some f)) = selectedFile s
       \<and> requests (handleFileSelect s (Some f)) = requests s
       \<and> status_slot (handleFileSelect s (Some f)) =
           Some \<lparr>status_type = ''error'', status_message = ''Please select a valid CSV file''\<rparr>
       \<and> selectedFile (handleFileDrop s (Some f)) = selectedFile s
       \<and> requests (handleFileDrop s (Some f)) = requests s
       \<and> status_slot (handleFileDrop s (Some f)) =
           Some \<lparr>status_type = ''error'', status_message = ''Please drop a valid CSV file''\<rparr>
       \<and> selectedFile (app_run evs) \<noteq> Some f
       \<and> PostUpload f m \<notin> set (requests (app_run evs))"
proof -
  have "csv_only (app_run evs)"
    by (rule csv_only_run)
  from csv_only_holds [OF this assms]
  have "selectedFile (app_run evs) \<noteq> Some f"
    and "PostUpload f m \<notin> set (requests (app_run evs))"
    by simp_all
  with assms show ?thesis
    by (simp add: handleFileSelect_def handleFileDrop_def is_csv_def status_slot_def Let_def)
qed

theorem non_csv_never_reaches_network_witness:
  "file_type logo_png \<noteq> ''text/csv''
   \<and> status_slot (handleFileSelect app_data (Some logo_png)) =
       Some \<lparr>status_type = ''error'', status_message = ''Please select a valid CSV file''\<rparr>
   \<and> requests (app_run [FileSelect (Some leads_csv), FileDrop (Some logo_png), PreviewFile,
        ParseComplete [] [''biz'', ''cat'', ''loc''], ConfirmMapping biz_cat_loc])
       = [PostUpload leads_csv biz_cat_loc]
   \<and> PostUpload logo_png biz_cat_loc \<notin> set (requests
        (app_run [FileSelect (Some leads_csv), FileDrop (Some logo_png), PreviewFile,
          ParseComplete [] [''biz'', ''cat'', ''loc''], ConfirmMapping biz_cat_loc]))"
proof -
  have png: "file_type logo_png \<noteq> ''text/csv''"
    by (simp add: logo_png_def)
  have sent: "requests (app_run [FileSelect (Some leads_csv), FileDrop (Some logo_png),
      PreviewFile, ParseComplete [] [''biz'', ''cat'', ''loc''], ConfirmMapping biz_cat_loc])
      = [PostUpload leads_csv biz_cat_loc]"
    by (simp add: app_run_def handleFileSelect_def handleFileDrop_def previewFile_def
        previewFile_complete_def confirmMapping_def uploadFile_def is_csv_def Let_def
        leads_csv_def logo_png_def app_data_def)
  from non_csv_never_reaches_network [OF png, of app_data
      "[FileSelect (Some leads_csv), FileDrop (Some logo_png), PreviewFile,
        ParseComplete [] [''biz'', ''cat'', ''loc''], ConfirmMapping biz_cat_loc]" biz_cat_loc]
    png sent
  show ?thesis
    by simp
qed

end
